theory Spec2Isabelle
  imports Complex_Main
begin

section \<open>Data model\<close>

text \<open>
  The claim service (\<^verbatim>\<open>services/claimService.ts\<close>) works on three mongoose collections:
  posts, admin settings and claims. A document is a record, a collection is the list of
  its documents, and the database is the record of the three collections. An ObjectId is
  read through \<^verbatim>\<open>toString()\<close> wherever the service compares ids, so an id is its string;
  the \<^verbatim>\<open>claimId\<close> of a method is the text of an ObjectId (for any other string
  \<^verbatim>\<open>Claim.findById\<close> throws a cast error before a document is read, a case that is not
  part of this development). A string is the list of its characters, and its length the
  number of them, as \<^verbatim>\<open>length\<close> counts the code units of a JavaScript string of plain
  characters. Instants are milliseconds since the epoch, as \<^verbatim>\<open>Date.now()\<close> and
  \<^verbatim>\<open>getTime()\<close> give them. A JavaScript number is an exact rational here: the
  comparisons are those of the code, but a result of \<open>calculateEarnings\<close> is the exact
  value where the code's is computed in doubles, so nothing below is stated about the
  digits it returns for arbitrary inputs. Only the fields the service reads or writes are
  kept (the \<^verbatim>\<open>createdAt\<close> and \<^verbatim>\<open>updatedAt\<close> stamps, which mongoose maintains by itself,
  are left out).
\<close>

type_synonym objectId = string

record post =
  post_id :: objectId
  post_userId :: objectId
  contentText :: string
  likeCount :: rat
  viewCount :: rat

record adminSettings =
  ratePerLike :: rat
  ratePer100Views :: rat
  settings_isActive :: bool

datatype claimStatus =
  Pending | Deducted | User_accepted | User_rejected
  | Account_approved | Admin_approved | Settled

text \<open>
  \<^verbatim>\<open>IClaimHistory.action\<close> is declared \<^verbatim>\<open>string\<close>: a stored entry may hold any text,
  which is why the service filters the history before each write.
\<close>

record claimHistory =
  hist_action :: string
  hist_by :: objectId
  hist_timestamp :: int
  hist_note :: "string option"

record claim =
  claim_id :: objectId
  userId :: objectId
  postIds :: "objectId list"
  proofFileUrls :: "string list"
  calculatedEarnings :: rat
  status :: claimStatus
  lockedBy :: "objectId option"
  lockTimestamp :: "int option"
  deductionAmount :: rat
  deductionReason :: "string option"
  reviewedBy :: "objectId option"
  finalApprovedBy :: "objectId option"
  history :: "claimHistory list"
  createdBy :: objectId
  updatedBy :: objectId
  isActive :: bool

text \<open>
  \<^verbatim>\<open>createClaim\<close> takes a \<^verbatim>\<open>Partial<IClaim>\<close>; the controller \<^verbatim>\<open>submitClaim\<close> fills
  exactly these fields. \<^verbatim>\<open>userId\<close> and \<^verbatim>\<open>postIds\<close> may be absent, which the service
  tests.
\<close>

record claimData =
  cd_userId :: "objectId option"
  cd_postIds :: "objectId list option"
  cd_proofFileUrls :: "string list"
  cd_createdBy :: objectId
  cd_updatedBy :: objectId

record deductionData =
  amount :: rat
  reason :: string

record db =
  claims :: "claim list"
  posts :: "post list"
  settings :: "adminSettings list"

text \<open>
  Every failure of the service is \<^verbatim>\<open>throw new Error(message)\<close>; the \<^verbatim>\<open>catch\<close> of each
  method wraps the message in a prefix and throws again, so the kind of the failure is
  kept. One constructor per kind of message:
  \<^item> \<open>InvalidInput\<close>: "Invalid claim data: User ID and post IDs are required", and
    "Duplicate posts detected in your selection";
  \<^item> \<open>DuplicateClaim\<close>: "Duplicate Claim Detected: The following posts are already
    claimed: ...", with one detail \<^verbatim>\<open>id (content) - Status: status\<close> per conflict;
  \<^item> \<open>ForbiddenPost\<close>: "Invalid Posts: Posts with IDs ... do not belong to you";
  \<^item> \<open>ConfigurationMissing\<close>: "Admin settings not found";
  \<^item> \<open>NotFound\<close>: "Claim not found";
  \<^item> \<open>InvalidStateTransition\<close>: "Claim can only ... when status is ...", "Claim cannot
    be rejected in current status";
  \<^item> \<open>InvalidDeduction\<close>: "Deduction amount must be greater than 0", "Deduction amount
    cannot be greater than or equal to calculated earnings";
  \<^item> \<open>Unauthorized\<close>: "Unauthorized to respond to this claim";
  \<^item> \<open>TypeError\<close>: \<^verbatim>\<open>claim.lockTimestamp!.getTime()\<close> on a claim with no lock instant;
  \<^item> \<open>ValidationError\<close>: \<^verbatim>\<open>save()\<close> refuses a document that a validator of the claim
    schema rejects.
\<close>

type_synonym conflict = "objectId \<times> string \<times> claimStatus"

datatype error =
  InvalidInput
  | DuplicateClaim "conflict list"
  | ForbiddenPost "objectId list"
  | ConfigurationMissing
  | NotFound
  | InvalidStateTransition
  | InvalidDeduction
  | Unauthorized
  | TypeError
  | ValidationError

section \<open>Queries and writes\<close>

text \<open>\<^verbatim>\<open>Post.find({ _id: { $in: postIds } })\<close>\<close>

definition Post_find_in :: "db \<Rightarrow> objectId list \<Rightarrow> post list" where
  "Post_find_in d ids = filter (\<lambda>p. post_id p \<in> set ids) (posts d)"

text \<open>\<^verbatim>\<open>AdminSettings.findOne({ isActive: true })\<close>\<close>

definition AdminSettings_findOne :: "db \<Rightarrow> adminSettings option" where
  "AdminSettings_findOne d = find settings_isActive (settings d)"

text \<open>
  \<^verbatim>\<open>Claim.findById(claimId)\<close>, for the text of an ObjectId: no filter on \<^verbatim>\<open>isActive\<close>.
\<close>

definition Claim_findById :: "db \<Rightarrow> objectId \<Rightarrow> claim option" where
  "Claim_findById d cid = find (\<lambda>c. claim_id c = cid) (claims d)"

text \<open>\<^verbatim>\<open>Claim.find({ postIds: { $in: postIds } })\<close>: no filter on status or \<^verbatim>\<open>isActive\<close>.\<close>

definition Claim_find_postIds_in :: "db \<Rightarrow> objectId list \<Rightarrow> claim list" where
  "Claim_find_postIds_in d ids =
     filter (\<lambda>c. \<exists>p \<in> set (postIds c). p \<in> set ids) (claims d)"

text \<open>The write of \<^verbatim>\<open>claim.save()\<close>, for a loaded document and for a new one.\<close>

definition Claim_update :: "db \<Rightarrow> claim \<Rightarrow> db" where
  "Claim_update d c =
     d\<lparr>claims := map (\<lambda>c0. if claim_id c0 = claim_id c then c else c0) (claims d)\<rparr>"

definition Claim_insert :: "db \<Rightarrow> claim \<Rightarrow> db" where
  "Claim_insert d c = d\<lparr>claims := claims d @ [c]\<rparr>"

text \<open>
  The vocabulary of history actions: the \<^verbatim>\<open>enum\<close> of \<^verbatim>\<open>claimHistorySchema.action\<close> and the
  \<^verbatim>\<open>validActions\<close> of the five transitions, the same seven texts.
\<close>

definition validActions :: "string list" where
  "validActions =
     [''submitted'', ''deduction_applied'', ''user_accepted'', ''user_rejected'',
      ''account_approved'', ''admin_approved'', ''settled'']"

text \<open>
  Before it writes, \<^verbatim>\<open>save()\<close> runs the validators of the claim schema
  (\<^verbatim>\<open>models/Claim.ts\<close>) on the whole document, the stored history entries included:
  \<^verbatim>\<open>min: 0\<close> on \<^verbatim>\<open>calculatedEarnings\<close> and \<^verbatim>\<open>deductionAmount\<close>, \<^verbatim>\<open>maxlength: 500\<close> on
  \<^verbatim>\<open>deductionReason\<close> and on the \<^verbatim>\<open>note\<close> of a history entry, and the \<^verbatim>\<open>enum\<close> on the
  \<^verbatim>\<open>action\<close> of a history entry. The fields the schema requires are present by their
  types, and the status is of its \<^verbatim>\<open>enum\<close> by its type.
\<close>

definition maxlength500 :: "string option \<Rightarrow> bool" where
  "maxlength500 v = (case v of None \<Rightarrow> True | Some s \<Rightarrow> length s \<le> 500)"

definition validateHistory :: "claimHistory \<Rightarrow> bool" where
  "validateHistory entry \<longleftrightarrow>
     hist_action entry \<in> set validActions \<and> maxlength500 (hist_note entry)"

definition validateClaim :: "claim \<Rightarrow> bool" where
  "validateClaim c \<longleftrightarrow>
     0 \<le> calculatedEarnings c \<and> 0 \<le> deductionAmount c
     \<and> maxlength500 (deductionReason c) \<and> list_all validateHistory (history c)"

text \<open>\<^verbatim>\<open>claim.save()\<close> of a loaded claim: the validators, then the write.\<close>

definition Claim_save :: "db \<Rightarrow> claim \<Rightarrow> error + claim \<times> db" where
  "Claim_save d c = (if validateClaim c then Inr (c, Claim_update d c) else Inl ValidationError)"

section \<open>The claim service\<close>

text \<open>
  Each method takes the database and returns either the error it throws or its result
  with the database after \<^verbatim>\<open>save()\<close>; a method that throws has written nothing, since
  every \<^verbatim>\<open>throw\<close> of the service stands before its \<^verbatim>\<open>save()\<close> and a \<^verbatim>\<open>save()\<close> that
  throws writes nothing. \<^verbatim>\<open>new Date()\<close> is the argument \<open>now\<close>, and the id mongoose gives
  a new document is the argument \<open>newId\<close>. \<open>applyDeduction\<close>, \<open>accountApprove\<close>,
  \<open>accountReject\<close>, \<open>adminApprove\<close>, \<open>lockClaim\<close> and \<open>unlockClaim\<close> save through
  \<open>Claim_save\<close>. \<open>respondToDeduction\<close> and \<open>createClaim\<close> are taken on documents that pass
  the validators: their \<^verbatim>\<open>save()\<close> is the write alone. The socket notifications sent
  after \<^verbatim>\<open>save()\<close> change neither the result nor the database and are left out.
\<close>

text \<open>
  \<^verbatim>\<open>if (claim.history && claim.history.length > 0) claim.history = claim.history.filter(...)\<close>
\<close>

definition cleanHistory :: "claimHistory list \<Rightarrow> claimHistory list" where
  "cleanHistory h =
     (if h \<noteq> [] then filter (\<lambda>entry. hist_action entry \<in> set validActions) h else h)"

text \<open>\<^verbatim>\<open>Math.round\<close>: the nearest integer, a tie going up.\<close>

definition Math_round :: "rat \<Rightarrow> int" where
  "Math_round x = \<lfloor>x + 1 / 2\<rfloor>"

definition calculateEarnings :: "db \<Rightarrow> objectId list \<Rightarrow> error + rat" where
  "calculateEarnings d ids =
     (let found = Post_find_in d ids in
      case AdminSettings_findOne d of
        None \<Rightarrow> Inl ConfigurationMissing
      | Some s \<Rightarrow>
          (let totalEarnings =
                 foldl (\<lambda>total p.
                          total + (likeCount p * ratePerLike s
                                   + viewCount p / 100 * ratePer100Views s))
                       0 found
           in Inr (of_int (Math_round (totalEarnings * 100)) / 100)))"

text \<open>
  \<^verbatim>\<open>Claim.find(...).populate('postIds', 'contentText')\<close>: the entries of
  \<^verbatim>\<open>existingClaim.postIds\<close> are the documents of the stored posts among the claim's post
  ids, each with its \<^verbatim>\<open>_id\<close> and its \<^verbatim>\<open>contentText\<close>; an id that matches no stored post
  leaves no entry. The service reads an entry through \<^verbatim>\<open>toString()\<close> and through
  \<^verbatim>\<open>contentText\<close>. What \<^verbatim>\<open>toString()\<close> gives for a document is decided by mongoose, not
  by the service: it is the parameter \<open>toStr\<close> of \<open>createClaim\<close>.
\<close>

datatype postRef = PostDoc objectId string

definition populate :: "db \<Rightarrow> objectId list \<Rightarrow> postRef list" where
  "populate d pids =
     concat (map (\<lambda>pid. case find (\<lambda>p. post_id p = pid) (posts d) of
                           Some p \<Rightarrow> [PostDoc pid (contentText p)]
                         | None \<Rightarrow> [])
                 pids)"

text \<open>
  \<^verbatim>\<open>post?.contentText ? post.contentText.substring(0, 50) + '...' : `Post ${postIdStr}`\<close>
\<close>

fun conflictContent :: "postRef \<Rightarrow> string \<Rightarrow> string" where
  "conflictContent (PostDoc i t) postIdStr =
     (if t \<noteq> [] then take 50 t @ ''...'' else ''Post '' @ postIdStr)"

text \<open>
  The two nested \<^verbatim>\<open>forEach\<close> loops that collect \<^verbatim>\<open>alreadyClaimedPostDetails\<close>: one
  detail, \<^verbatim>\<open>`${postIdStr} (${content}) - Status: ${existingClaim.status}`\<close>, for each entry
  whose string is among the requested ids.
\<close>

definition conflictDetails ::
  "(postRef \<Rightarrow> string) \<Rightarrow> db \<Rightarrow> objectId list \<Rightarrow> claim list \<Rightarrow> conflict list" where
  "conflictDetails toStr d newPostIds existing =
     concat (map (\<lambda>existingClaim.
                    concat (map (\<lambda>r. let postIdStr = toStr r in
                                   if postIdStr \<in> set newPostIds
                                   then [(postIdStr, conflictContent r postIdStr,
                                          status existingClaim)]
                                   else [])
                                (populate d (postIds existingClaim))))
                 existing)"

definition createClaim ::
  "(postRef \<Rightarrow> string) \<Rightarrow> db \<Rightarrow> claimData \<Rightarrow> objectId \<Rightarrow> int \<Rightarrow> error + claim \<times> db" where
  "createClaim toStr d cd newId now =
     (case cd_userId cd of
        None \<Rightarrow> Inl InvalidInput
      | Some uid \<Rightarrow>
     (case cd_postIds cd of
        None \<Rightarrow> Inl InvalidInput
      | Some ids \<Rightarrow>
          if ids = [] then Inl InvalidInput
          else if length (remdups ids) \<noteq> length ids then Inl InvalidInput
          else
            (let existingClaimsWithSamePosts = Claim_find_postIds_in d ids in
             if existingClaimsWithSamePosts \<noteq> []
             then Inl (DuplicateClaim (conflictDetails toStr d ids existingClaimsWithSamePosts))
             else
               (let invalidPosts =
                      filter (\<lambda>p. post_userId p \<noteq> uid) (Post_find_in d ids) in
                if invalidPosts \<noteq> [] then Inl (ForbiddenPost (map post_id invalidPosts))
                else
                  (case calculateEarnings d ids of
                     Inl e \<Rightarrow> Inl e
                   | Inr earnings \<Rightarrow>
                       (let c = \<lparr>claim_id = newId, userId = uid, postIds = ids,
                                  proofFileUrls = cd_proofFileUrls cd,
                                  calculatedEarnings = earnings, status = Pending,
                                  lockedBy = None, lockTimestamp = None,
                                  deductionAmount = 0, deductionReason = None,
                                  reviewedBy = None, finalApprovedBy = None,
                                  history = [\<lparr>hist_action = ''submitted'',
                                              hist_by = cd_createdBy cd,
                                              hist_timestamp = now,
                                              hist_note = None\<rparr>],
                                  createdBy = cd_createdBy cd,
                                  updatedBy = cd_updatedBy cd, isActive = True\<rparr>
                        in Inr (c, Claim_insert d c)))))))"

definition applyDeduction ::
  "db \<Rightarrow> objectId \<Rightarrow> deductionData \<Rightarrow> objectId \<Rightarrow> int \<Rightarrow> error + claim \<times> db" where
  "applyDeduction d claimId dd reviewerId now =
     (case Claim_findById d claimId of
        None \<Rightarrow> Inl NotFound
      | Some c \<Rightarrow>
          if status c \<noteq> Pending then Inl InvalidStateTransition
          else if amount dd \<le> 0 then Inl InvalidDeduction
          else if amount dd \<ge> calculatedEarnings c then Inl InvalidDeduction
          else
            (let c' = c\<lparr>history := cleanHistory (history c) @
                                     [\<lparr>hist_action = ''deduction_applied'',
                                       hist_by = reviewerId, hist_timestamp = now,
                                       hist_note = Some (''Deduction applied: '' @ reason dd)\<rparr>],
                         deductionAmount := amount dd,
                         deductionReason := Some (reason dd),
                         status := Deducted,
                         reviewedBy := Some reviewerId,
                         updatedBy := reviewerId\<rparr>
             in Claim_save d c'))"

definition respondToDeduction ::
  "db \<Rightarrow> objectId \<Rightarrow> bool \<Rightarrow> objectId \<Rightarrow> int \<Rightarrow> error + claim \<times> db" where
  "respondToDeduction d claimId accepted uid now =
     (case Claim_findById d claimId of
        None \<Rightarrow> Inl NotFound
      | Some c \<Rightarrow>
          if status c \<noteq> Deducted then Inl InvalidStateTransition
          else if uid \<noteq> userId c then Inl Unauthorized
          else
            (let c1 = c\<lparr>history := cleanHistory (history c) @
                                     [\<lparr>hist_action =
                                         (if accepted then ''user_accepted'' else ''user_rejected''),
                                       hist_by = uid, hist_timestamp = now,
                                       hist_note =
                                         Some (if accepted then ''User accepted the deduction''
                                               else ''User rejected the deduction'')\<rparr>]\<rparr>;
                 c2 = (if accepted then c1\<lparr>status := User_accepted\<rparr>
                       else c1\<lparr>status := User_rejected, deductionAmount := 0,
                               deductionReason := Some ''''\<rparr>);
                 c' = c2\<lparr>updatedBy := uid\<rparr>
             in Inr (c', Claim_update d c')))"

definition accountApprove ::
  "db \<Rightarrow> objectId \<Rightarrow> objectId \<Rightarrow> int \<Rightarrow> error + claim \<times> db" where
  "accountApprove d claimId reviewerId now =
     (case Claim_findById d claimId of
        None \<Rightarrow> Inl NotFound
      | Some c \<Rightarrow>
          if status c \<noteq> Pending \<and> status c \<noteq> User_rejected then Inl InvalidStateTransition
          else
            (let c' = c\<lparr>history := cleanHistory (history c) @
                                     [\<lparr>hist_action = ''account_approved'',
                                       hist_by = reviewerId, hist_timestamp = now,
                                       hist_note = Some ''Claim approved by account reviewer''\<rparr>],
                         status := Account_approved,
                         reviewedBy := Some reviewerId,
                         updatedBy := reviewerId\<rparr>
             in Claim_save d c'))"

definition accountReject ::
  "db \<Rightarrow> objectId \<Rightarrow> objectId \<Rightarrow> string \<Rightarrow> int \<Rightarrow> error + claim \<times> db" where
  "accountReject d claimId reviewerId why now =
     (case Claim_findById d claimId of
        None \<Rightarrow> Inl NotFound
      | Some c \<Rightarrow>
          if status c \<noteq> Pending \<and> status c \<noteq> User_rejected then Inl InvalidStateTransition
          else
            (let c' = c\<lparr>history := cleanHistory (history c) @
                                     [\<lparr>hist_action = ''user_rejected'',
                                       hist_by = reviewerId, hist_timestamp = now,
                                       hist_note = Some why\<rparr>],
                         status := User_rejected,
                         reviewedBy := Some reviewerId,
                         updatedBy := reviewerId,
                         deductionReason := Some why\<rparr>
             in Claim_save d c'))"

definition adminApprove ::
  "db \<Rightarrow> objectId \<Rightarrow> objectId \<Rightarrow> int \<Rightarrow> error + claim \<times> db" where
  "adminApprove d claimId adminId now =
     (case Claim_findById d claimId of
        None \<Rightarrow> Inl NotFound
      | Some c \<Rightarrow>
          if status c \<noteq> Account_approved \<and> status c \<noteq> User_accepted
          then Inl InvalidStateTransition
          else
            (let c' = c\<lparr>history := cleanHistory (history c) @
                                     [\<lparr>hist_action = ''admin_approved'',
                                       hist_by = adminId, hist_timestamp = now,
                                       hist_note = Some ''Claim finally approved by admin''\<rparr>],
                         status := Admin_approved,
                         finalApprovedBy := Some adminId,
                         updatedBy := adminId\<rparr>
             in Claim_save d c'))"


definition unlockClaim :: "db \<Rightarrow> objectId \<Rightarrow> objectId \<Rightarrow> error + db" where
  "unlockClaim d claimId uid =
     (case Claim_findById d claimId of
        None \<Rightarrow> Inl NotFound
      | Some c \<Rightarrow>
          if lockedBy c = Some uid
          then (case Claim_save d (c\<lparr>lockedBy := None, lockTimestamp := None\<rparr>) of
                  Inl e \<Rightarrow> Inl e
                | Inr (c', d') \<Rightarrow> Inr d')
          else Inr d)"

text \<open>
  The database after a call: the one returned with the result, or the one the call was
  made on when it threw.
\<close>

definition db_after :: "db \<Rightarrow> error + 'a \<times> db \<Rightarrow> db" where
  "db_after d r = (case r of Inl e \<Rightarrow> d | Inr (x, d') \<Rightarrow> d')"

text \<open>
  To compare a claim with the same claim under another active flag: the flag of the
  claim of one id set in the database, and in the result of a transition.
\<close>

definition set_isActive :: "bool \<Rightarrow> objectId \<Rightarrow> db \<Rightarrow> db" where
  "set_isActive b cid d =
     d\<lparr>claims := map (\<lambda>c. if claim_id c = cid then c\<lparr>isActive := b\<rparr> else c) (claims d)\<rparr>"

definition result_set_isActive ::
  "bool \<Rightarrow> objectId \<Rightarrow> error + claim \<times> db \<Rightarrow> error + claim \<times> db" where
  "result_set_isActive b cid r =
     (case r of Inl e \<Rightarrow> Inl e | Inr (c, d) \<Rightarrow> Inr (c\<lparr>isActive := b\<rparr>, set_isActive b cid d))"

section \<open>Example data\<close>

definition h_submitted :: claimHistory where
  "h_submitted = \<lparr>hist_action = ''submitted'', hist_by = ''u1'', hist_timestamp = 0,
                  hist_note = None\<rparr>"

definition claim_deducted :: claim where
  "claim_deducted =
     \<lparr>claim_id = ''c1'', userId = ''u1'', postIds = [''p1''], proofFileUrls = [''/uploads/a''],
      calculatedEarnings = 1 / 10, status = Deducted, lockedBy = None, lockTimestamp = None,
      deductionAmount = 1 / 20, deductionReason = Some ''test'', reviewedBy = Some ''acc'',
      finalApprovedBy = None, history = [h_submitted], createdBy = ''u1'', updatedBy = ''acc'',
      isActive = True\<rparr>"

definition db_deducted :: db where
  "db_deducted = \<lparr>claims = [claim_deducted], posts = [], settings = []\<rparr>"

definition h_corrupt :: claimHistory where
  "h_corrupt = \<lparr>hist_action = ''edited'', hist_by = ''u1'', hist_timestamp = 1,
                hist_note = Some ''legacy entry''\<rparr>"

definition claim_pending :: claim where
  "claim_pending =
     \<lparr>claim_id = ''c1'', userId = ''u1'', postIds = [''p1''], proofFileUrls = [''/uploads/a''],
      calculatedEarnings = 1 / 10, status = Pending, lockedBy = None, lockTimestamp = None,
      deductionAmount = 0, deductionReason = None, reviewedBy = None,
      finalApprovedBy = None, history = [h_submitted, h_corrupt], createdBy = ''u1'',
      updatedBy = ''u1'', isActive = True\<rparr>"

definition db_pending :: db where
  "db_pending = \<lparr>claims = [claim_pending], posts = [], settings = []\<rparr>"

definition claim_inactive :: claim where
  "claim_inactive = claim_pending\<lparr>isActive := False\<rparr>"

definition db_inactive :: db where
  "db_inactive = \<lparr>claims = [claim_inactive], posts = [], settings = []\<rparr>"

definition dd_test :: deductionData where
  "dd_test = \<lparr>amount = 1 / 20, reason = ''test''\<rparr>"

text \<open>A reason of 482 characters: with the prefix of the note, 501.\<close>

definition dd_long :: deductionData where
  "dd_long = \<lparr>amount = 1 / 20, reason = replicate 482 CHR ''x''\<rparr>"





definition post_p1 :: post where
  "post_p1 = \<lparr>post_id = ''p1'', post_userId = ''u1'', contentText = ''hello'',
              likeCount = 10, viewCount = 500\<rparr>"

definition default_settings :: adminSettings where
  "default_settings = \<lparr>ratePerLike = 1 / 100, ratePer100Views = 1 / 2,
                        settings_isActive = True\<rparr>"

definition db_posts :: db where
  "db_posts = \<lparr>claims = [], posts = [post_p1], settings = [default_settings]\<rparr>"

definition claim_settled :: claim where
  "claim_settled = claim_pending\<lparr>status := Settled, isActive := False\<rparr>"

definition db_settled :: db where
  "db_settled = \<lparr>claims = [claim_settled], posts = [post_p1],
                  settings = [default_settings]\<rparr>"

definition cd_example :: "objectId \<Rightarrow> objectId list \<Rightarrow> claimData" where
  "cd_example uid ids =
     \<lparr>cd_userId = Some uid, cd_postIds = Some ids, cd_proofFileUrls = [''/uploads/b''],
      cd_createdBy = uid, cd_updatedBy = uid\<rparr>"

text \<open>
  A \<^verbatim>\<open>toString()\<close> that prints the document, as the console shows it, and not its id
  alone.
\<close>

fun inspect_toString :: "postRef \<Rightarrow> string" where
  "inspect_toString (PostDoc i t) = ''{ _id: '' @ i @ '', contentText: '' @ t @ '' }''"

section \<open>The state machine\<close>

text \<open>
  C1. State machine completeness. For a stored claim, each of the five transitions
  fails with \<open>InvalidStateTransition\<close> whenever the claim's status is not one of its
  source statuses (pending for \<open>applyDeduction\<close>; deducted for \<open>respondToDeduction\<close>;
  pending or user_rejected for \<open>accountApprove\<close> and \<open>accountReject\<close>; account_approved
  or user_accepted for \<open>adminApprove\<close>), and so succeeds only from a source status.
\<close>

theorem state_machine_completeness:
  assumes "Claim_findById d cid = Some c"
  shows "(status c \<noteq> Pending \<longrightarrow>
            applyDeduction d cid dd actor now = Inl InvalidStateTransition)
       \<and> (status c \<noteq> Deducted \<longrightarrow>
            respondToDeduction d cid accepted actor now = Inl InvalidStateTransition)
       \<and> (status c \<notin> {Pending, User_rejected} \<longrightarrow>
            accountApprove d cid actor now = Inl InvalidStateTransition
            \<and> accountReject d cid actor why now = Inl InvalidStateTransition)
       \<and> (status c \<notin> {Account_approved, User_accepted} \<longrightarrow>
            adminApprove d cid actor now = Inl InvalidStateTransition)
       \<and> (\<forall>r. applyDeduction d cid dd actor now = Inr r \<longrightarrow> status c = Pending)
       \<and> (\<forall>r. respondToDeduction d cid accepted actor now = Inr r \<longrightarrow> status c = Deducted)
       \<and> (\<forall>r. accountApprove d cid actor now = Inr r \<longrightarrow> status c \<in> {Pending, User_rejected})
       \<and> (\<forall>r. accountReject d cid actor why now = Inr r \<longrightarrow> status c \<in> {Pending, User_rejected})
       \<and> (\<forall>r. adminApprove d cid actor now = Inr r \<longrightarrow>
              status c \<in> {Account_approved, User_accepted})"
  using assms
  by (simp add: applyDeduction_def respondToDeduction_def accountApprove_def
      accountReject_def adminApprove_def Let_def)

theorem state_machine_completeness_witness:
  "applyDeduction db_deducted ''c1'' \<lparr>amount = 1 / 20, reason = ''again''\<rparr> ''acc'' 5
     = Inl InvalidStateTransition
   \<and> accountApprove db_deducted ''c1'' ''acc'' 5 = Inl InvalidStateTransition
   \<and> accountReject db_deducted ''c1'' ''acc'' ''no'' 5 = Inl InvalidStateTransition
   \<and> adminApprove db_deducted ''c1'' ''acc'' 5 = Inl InvalidStateTransition"
proof -
  have found: "Claim_findById db_deducted ''c1'' = Some claim_deducted"
    by (simp add: Claim_findById_def db_deducted_def claim_deducted_def)
  have st: "status claim_deducted = Deducted"
    by (simp add: claim_deducted_def)
  show ?thesis
    using state_machine_completeness [OF found] st by simp
qed

section \<open>Helper facts on the store and on the validators\<close>

lemma find_claim_id: "find (\<lambda>c. claim_id c = cid) cs = Some c \<Longrightarrow> claim_id c = cid"
  by (induction cs) (auto split: if_splits)

lemma findById_claim_id: "Claim_findById d cid = Some c \<Longrightarrow> claim_id c = cid"
  unfolding Claim_findById_def by (rule find_claim_id)

lemma find_after_map:
  "find (\<lambda>c. claim_id c = claim_id c') cs = Some c \<Longrightarrow>
   find (\<lambda>c. claim_id c = claim_id c')
        (map (\<lambda>c0. if claim_id c0 = claim_id c' then c' else c0) cs) = Some c'"
  by (induction cs) (simp_all split: if_splits)

lemma findById_update:
  assumes "Claim_findById d cid = Some c" and "claim_id c' = cid"
  shows "Claim_findById (Claim_update d c') cid = Some c'"
proof -
  from assms have "find (\<lambda>c. claim_id c = claim_id c') (claims d) = Some c"
    by (simp add: Claim_findById_def)
  then have "find (\<lambda>c. claim_id c = claim_id c')
               (map (\<lambda>c0. if claim_id c0 = claim_id c' then c' else c0) (claims d)) = Some c'"
    by (rule find_after_map)
  with assms(2) show ?thesis
    by (simp add: Claim_findById_def Claim_update_def)
qed

lemma cleanHistory_filter:
  "cleanHistory h = filter (\<lambda>entry. hist_action entry \<in> set validActions) h"
  by (simp add: cleanHistory_def)

lemma validateHistory_clean:
  "list_all validateHistory (cleanHistory h)
     \<longleftrightarrow> list_all (\<lambda>e. maxlength500 (hist_note e)) (cleanHistory h)"
  by (auto simp: cleanHistory_filter list_all_iff validateHistory_def)

lemma validActions_written:
  "''deduction_applied'' \<in> set validActions" "''user_accepted'' \<in> set validActions"
  "''user_rejected'' \<in> set validActions" "''account_approved'' \<in> set validActions"
  "''admin_approved'' \<in> set validActions"
  by (simp_all add: validActions_def)

section \<open>Deductions\<close>

text \<open>
  C4, as the code has it. For a stored claim with status pending, \<open>applyDeduction\<close> fails
  with \<open>InvalidDeduction\<close> exactly when the amount is at most 0 or at least the
  calculated earnings. For an amount strictly between, a reason of at most 481 characters
  and kept history notes of at most 500, it succeeds: the history is the purged old
  history followed by one entry with action \<open>deduction_applied\<close>, by the actor, whose
  note is the text "Deduction applied: " followed by the reason; the claim gets
  \<open>deductionAmount = amount\<close>, \<open>deductionReason = reason\<close>, \<open>status = deducted\<close>,
  \<open>reviewedBy = actor\<close>, and is stored under its id. For an amount strictly between and a
  reason of more than 481 characters the note exceeds the 500 characters of the schema, and
  the call fails with \<open>ValidationError\<close>.
\<close>

theorem applyDeduction_contract:
  assumes "Claim_findById d cid = Some c" and "status c = Pending"
  shows "(applyDeduction d cid dd actor now = Inl InvalidDeduction
            \<longleftrightarrow> amount dd \<le> 0 \<or> amount dd \<ge> calculatedEarnings c)
       \<and> (0 < amount dd \<and> amount dd < calculatedEarnings c
          \<and> length (reason dd) \<le> 481
          \<and> list_all (\<lambda>e. maxlength500 (hist_note e)) (cleanHistory (history c)) \<longrightarrow>
            (\<exists>c' d'. applyDeduction d cid dd actor now = Inr (c', d')
               \<and> history c' = cleanHistory (history c) @
                    [\<lparr>hist_action = ''deduction_applied'', hist_by = actor,
                      hist_timestamp = now,
                      hist_note = Some (''Deduction applied: '' @ reason dd)\<rparr>]
               \<and> deductionAmount c' = amount dd
               \<and> deductionReason c' = Some (reason dd)
               \<and> status c' = Deducted
               \<and> reviewedBy c' = Some actor
               \<and> Claim_findById d' cid = Some c'))
       \<and> (0 < amount dd \<and> amount dd < calculatedEarnings c \<and> length (reason dd) > 481 \<longrightarrow>
            applyDeduction d cid dd actor now = Inl ValidationError)"
proof -
  let ?c' = "c\<lparr>history := cleanHistory (history c) @
                   [\<lparr>hist_action = ''deduction_applied'', hist_by = actor,
                     hist_timestamp = now,
                     hist_note = Some (''Deduction applied: '' @ reason dd)\<rparr>],
               deductionAmount := amount dd,
               deductionReason := Some (reason dd),
               status := Deducted,
               reviewedBy := Some actor,
               updatedBy := actor\<rparr>"
  have cid: "claim_id c = cid"
    using assms(1) by (rule findById_claim_id)
  have run: "applyDeduction d cid dd actor now = Claim_save d ?c'"
    if "0 < amount dd" and "amount dd < calculatedEarnings c"
    using that assms by (simp add: applyDeduction_def Let_def)
  have fails: "applyDeduction d cid dd actor now = Inl InvalidDeduction
                 \<longleftrightarrow> amount dd \<le> 0 \<or> amount dd \<ge> calculatedEarnings c"
    using assms by (auto simp: applyDeduction_def Let_def Claim_save_def)
  have valid: "validateClaim ?c'"
    if "0 < amount dd" and "amount dd < calculatedEarnings c"
      and "length (reason dd) \<le> 481"
      and "list_all (\<lambda>e. maxlength500 (hist_note e)) (cleanHistory (history c))"
    using that
    by (simp add: validateClaim_def validateHistory_clean validateHistory_def
        maxlength500_def validActions_written)
  have works: "\<exists>c' d'. applyDeduction d cid dd actor now = Inr (c', d')
               \<and> history c' = cleanHistory (history c) @
                    [\<lparr>hist_action = ''deduction_applied'', hist_by = actor,
                      hist_timestamp = now,
                      hist_note = Some (''Deduction applied: '' @ reason dd)\<rparr>]
               \<and> deductionAmount c' = amount dd
               \<and> deductionReason c' = Some (reason dd)
               \<and> status c' = Deducted
               \<and> reviewedBy c' = Some actor
               \<and> Claim_findById d' cid = Some c'"
    if h: "0 < amount dd" "amount dd < calculatedEarnings c"
      "length (reason dd) \<le> 481"
      "list_all (\<lambda>e. maxlength500 (hist_note e)) (cleanHistory (history c))"
  proof -
    have stored: "Claim_findById (Claim_update d ?c') cid = Some ?c'"
      using assms(1) cid by (simp add: findById_update)
    have "applyDeduction d cid dd actor now = Inr (?c', Claim_update d ?c')"
      using run [OF h(1,2)] valid [OF h] by (simp add: Claim_save_def)
    with stored show ?thesis by simp
  qed
  have refused: "applyDeduction d cid dd actor now = Inl ValidationError"
    if h: "0 < amount dd" "amount dd < calculatedEarnings c" and long: "length (reason dd) > 481"
  proof -
    have "\<not> validateClaim ?c'"
      using long by (simp add: validateClaim_def validateHistory_def maxlength500_def)
    with run [OF h] show ?thesis
      by (simp add: Claim_save_def)
  qed
  from fails works refused show ?thesis by blast
qed

theorem applyDeduction_contract_witness:
  "applyDeduction db_pending ''c1'' \<lparr>amount = 1 / 10, reason = ''all''\<rparr> ''acc'' 5
     = Inl InvalidDeduction
   \<and> applyDeduction db_pending ''c1'' \<lparr>amount = 0, reason = ''none''\<rparr> ''acc'' 5
     = Inl InvalidDeduction
   \<and> (\<exists>c' d'. applyDeduction db_pending ''c1'' dd_test ''acc'' 5 = Inr (c', d')
        \<and> history c' =
             [h_submitted,
              \<lparr>hist_action = ''deduction_applied'', hist_by = ''acc'', hist_timestamp = 5,
                hist_note = Some ''Deduction applied: test''\<rparr>]
        \<and> deductionAmount c' = 1 / 20 \<and> deductionReason c' = Some ''test''
        \<and> status c' = Deducted \<and> reviewedBy c' = Some ''acc''
        \<and> Claim_findById d' ''c1'' = Some c')
   \<and> applyDeduction db_pending ''c1'' dd_long ''acc'' 5 = Inl ValidationError"
proof -
  have found: "Claim_findById db_pending ''c1'' = Some claim_pending"
    by (simp add: Claim_findById_def db_pending_def claim_pending_def)
  have st: "status claim_pending = Pending"
    by (simp add: claim_pending_def)
  have earn: "calculatedEarnings claim_pending = 1 / 10"
    by (simp add: claim_pending_def)
  have hist: "cleanHistory (history claim_pending) = [h_submitted]"
    by (simp add: claim_pending_def cleanHistory_def validActions_def h_submitted_def
        h_corrupt_def)
  have kept: "list_all (\<lambda>e. maxlength500 (hist_note e)) [h_submitted]"
    by (simp add: h_submitted_def maxlength500_def)
  have a: "applyDeduction db_pending ''c1'' \<lparr>amount = 1 / 10, reason = ''all''\<rparr> ''acc'' 5
             = Inl InvalidDeduction"
    using applyDeduction_contract
      [OF found st, of "\<lparr>amount = 1 / 10, reason = ''all''\<rparr>" "''acc''" 5]
    by (simp add: earn)
  have b: "applyDeduction db_pending ''c1'' \<lparr>amount = 0, reason = ''none''\<rparr> ''acc'' 5
             = Inl InvalidDeduction"
    using applyDeduction_contract
      [OF found st, of "\<lparr>amount = 0, reason = ''none''\<rparr>" "''acc''" 5]
    by (simp add: earn)
  have c: "\<exists>c' d'. applyDeduction db_pending ''c1'' dd_test ''acc'' 5 = Inr (c', d')
        \<and> history c' =
             [h_submitted,
              \<lparr>hist_action = ''deduction_applied'', hist_by = ''acc'', hist_timestamp = 5,
                hist_note = Some ''Deduction applied: test''\<rparr>]
        \<and> deductionAmount c' = 1 / 20 \<and> deductionReason c' = Some ''test''
        \<and> status c' = Deducted \<and> reviewedBy c' = Some ''acc''
        \<and> Claim_findById d' ''c1'' = Some c'"
    using applyDeduction_contract [OF found st, of dd_test "''acc''" 5] kept
    by (simp add: earn hist dd_test_def)
  have d: "applyDeduction db_pending ''c1'' dd_long ''acc'' 5 = Inl ValidationError"
    using applyDeduction_contract [OF found st, of dd_long "''acc''" 5]
    by (simp add: earn dd_long_def)
  from a b c d show ?thesis by blast
qed

text \<open>
  The note of the appended entry is not the reason itself: for the reason "test" the
  stored note is "Deduction applied: test". And an amount strictly between 0 and the
  earnings is not enough to succeed: with a reason of 482 characters the call fails.
\<close>

theorem applyDeduction_note_counterexample:
  "(case applyDeduction db_pending ''c1'' dd_test ''acc'' 5 of
      Inl e \<Rightarrow> False
    | Inr (c', d') \<Rightarrow>
        hist_note (last (history c')) = Some ''Deduction applied: test''
        \<and> hist_note (last (history c')) \<noteq> Some (reason dd_test))
   \<and> 0 < amount dd_long \<and> amount dd_long < calculatedEarnings claim_pending
   \<and> applyDeduction db_pending ''c1'' dd_long ''acc'' 5 = Inl ValidationError"
  by (simp add: applyDeduction_def Claim_findById_def db_pending_def claim_pending_def
      dd_test_def dd_long_def Let_def Claim_save_def validateClaim_def validateHistory_def
      maxlength500_def cleanHistory_def validActions_def h_submitted_def h_corrupt_def)



section \<open>The active flag\<close>

lemma find_set_isActive:
  "find (\<lambda>c. claim_id c = cid)
        (map (\<lambda>c. if claim_id c = cid then c\<lparr>isActive := b\<rparr> else c) cs)
     = map_option (\<lambda>c. c\<lparr>isActive := b\<rparr>) (find (\<lambda>c. claim_id c = cid) cs)"
  by (induction cs) simp_all

lemma findById_set_isActive:
  "Claim_findById (set_isActive b cid d) cid
     = map_option (\<lambda>c. c\<lparr>isActive := b\<rparr>) (Claim_findById d cid)"
  by (simp add: Claim_findById_def set_isActive_def find_set_isActive)

lemma validateClaim_isActive: "validateClaim (c\<lparr>isActive := b\<rparr>) = validateClaim c"
  by (simp add: validateClaim_def)

lemma update_set_isActive:
  assumes "claim_id c' = cid"
  shows "Claim_update (set_isActive b cid d) (c'\<lparr>isActive := b\<rparr>)
           = set_isActive b cid (Claim_update d c')"
  using assms by (simp add: Claim_update_def set_isActive_def)

lemma result_set_isActive_Inl: "result_set_isActive b cid (Inl e) = Inl e"
  by (simp add: result_set_isActive_def)

lemma result_set_isActive_Inr:
  "result_set_isActive b cid (Inr (c, d)) = Inr (c\<lparr>isActive := b\<rparr>, set_isActive b cid d)"
  by (simp add: result_set_isActive_def)

lemma save_set_isActive:
  assumes "claim_id c' = cid"
  shows "Claim_save (set_isActive b cid d) (c'\<lparr>isActive := b\<rparr>)
           = result_set_isActive b cid (Claim_save d c')"
  using assms
  by (simp add: Claim_save_def result_set_isActive_def validateClaim_isActive
      update_set_isActive)

lemma isActive_outward:
  "(c\<lparr>isActive := b\<rparr>)\<lparr>history := h\<rparr> = (c\<lparr>history := h\<rparr>)\<lparr>isActive := b\<rparr>"
  "(c\<lparr>isActive := b\<rparr>)\<lparr>deductionAmount := a\<rparr> = (c\<lparr>deductionAmount := a\<rparr>)\<lparr>isActive := b\<rparr>"
  "(c\<lparr>isActive := b\<rparr>)\<lparr>deductionReason := r\<rparr> = (c\<lparr>deductionReason := r\<rparr>)\<lparr>isActive := b\<rparr>"
  "(c\<lparr>isActive := b\<rparr>)\<lparr>status := s\<rparr> = (c\<lparr>status := s\<rparr>)\<lparr>isActive := b\<rparr>"
  "(c\<lparr>isActive := b\<rparr>)\<lparr>reviewedBy := v\<rparr> = (c\<lparr>reviewedBy := v\<rparr>)\<lparr>isActive := b\<rparr>"
  "(c\<lparr>isActive := b\<rparr>)\<lparr>finalApprovedBy := v\<rparr> = (c\<lparr>finalApprovedBy := v\<rparr>)\<lparr>isActive := b\<rparr>"
  "(c\<lparr>isActive := b\<rparr>)\<lparr>updatedBy := u\<rparr> = (c\<lparr>updatedBy := u\<rparr>)\<lparr>isActive := b\<rparr>"
  by (cases c; simp)+

lemma applyDeduction_set_isActive:
  "applyDeduction (set_isActive b cid d) cid dd actor now
     = result_set_isActive b cid (applyDeduction d cid dd actor now)"
proof (cases "Claim_findById d cid")
  case None
  then show ?thesis
    by (simp add: applyDeduction_def findById_set_isActive result_set_isActive_Inl)
next
  case (Some c)
  then have cid: "claim_id c = cid"
    by (rule findById_claim_id)
  show ?thesis
    by (simp add: applyDeduction_def findById_set_isActive Some cid Let_def isActive_outward
        save_set_isActive result_set_isActive_Inl)
qed

lemma respondToDeduction_set_isActive:
  "respondToDeduction (set_isActive b cid d) cid accepted actor now
     = result_set_isActive b cid (respondToDeduction d cid accepted actor now)"
proof (cases "Claim_findById d cid")
  case None
  then show ?thesis
    by (simp add: respondToDeduction_def findById_set_isActive result_set_isActive_Inl)
next
  case (Some c)
  then have cid: "claim_id c = cid"
    by (rule findById_claim_id)
  show ?thesis
    by (simp add: respondToDeduction_def findById_set_isActive Some cid Let_def
        isActive_outward update_set_isActive result_set_isActive_Inl
        result_set_isActive_Inr)
qed

lemma accountApprove_set_isActive:
  "accountApprove (set_isActive b cid d) cid actor now
     = result_set_isActive b cid (accountApprove d cid actor now)"
proof (cases "Claim_findById d cid")
  case None
  then show ?thesis
    by (simp add: accountApprove_def findById_set_isActive result_set_isActive_Inl)
next
  case (Some c)
  then have cid: "claim_id c = cid"
    by (rule findById_claim_id)
  show ?thesis
    by (simp add: accountApprove_def findById_set_isActive Some cid Let_def isActive_outward
        save_set_isActive result_set_isActive_Inl)
qed

lemma accountReject_set_isActive:
  "accountReject (set_isActive b cid d) cid actor why now
     = result_set_isActive b cid (accountReject d cid actor why now)"
proof (cases "Claim_findById d cid")
  case None
  then show ?thesis
    by (simp add: accountReject_def findById_set_isActive result_set_isActive_Inl)
next
  case (Some c)
  then have cid: "claim_id c = cid"
    by (rule findById_claim_id)
  show ?thesis
    by (simp add: accountReject_def findById_set_isActive Some cid Let_def isActive_outward
        save_set_isActive result_set_isActive_Inl)
qed

lemma adminApprove_set_isActive:
  "adminApprove (set_isActive b cid d) cid actor now
     = result_set_isActive b cid (adminApprove d cid actor now)"
proof (cases "Claim_findById d cid")
  case None
  then show ?thesis
    by (simp add: adminApprove_def findById_set_isActive result_set_isActive_Inl)
next
  case (Some c)
  then have cid: "claim_id c = cid"
    by (rule findById_claim_id)
  show ?thesis
    by (simp add: adminApprove_def findById_set_isActive Some cid Let_def isActive_outward
        save_set_isActive result_set_isActive_Inl)
qed

text \<open>
  C6, as the code has it. A transition succeeds only on a stored claim: the referenced
  claim has to exist. The active flag is not examined: on the database in which the
  claim's flag is set to \<open>b\<close>, each transition gives the result it gives on the database
  as it was, with the flag of the claim set to \<open>b\<close> in the returned claim and in the
  database written: the same error, or the same transition. So a claim whose flag is false
  is transitioned as the same claim with the flag true is, and stays inactive.
\<close>

theorem active_flag_not_examined:
  "(\<forall>r. applyDeduction d cid dd actor now = Inr r
         \<or> respondToDeduction d cid accepted actor now = Inr r
         \<or> accountApprove d cid actor now = Inr r
         \<or> accountReject d cid actor why now = Inr r
         \<or> adminApprove d cid actor now = Inr r \<longrightarrow>
         Claim_findById d cid \<noteq> None)
   \<and> applyDeduction (set_isActive b cid d) cid dd actor now
       = result_set_isActive b cid (applyDeduction d cid dd actor now)
   \<and> respondToDeduction (set_isActive b cid d) cid accepted actor now
       = result_set_isActive b cid (respondToDeduction d cid accepted actor now)
   \<and> accountApprove (set_isActive b cid d) cid actor now
       = result_set_isActive b cid (accountApprove d cid actor now)
   \<and> accountReject (set_isActive b cid d) cid actor why now
       = result_set_isActive b cid (accountReject d cid actor why now)
   \<and> adminApprove (set_isActive b cid d) cid actor now
       = result_set_isActive b cid (adminApprove d cid actor now)"
proof -
  have stored_only: "Claim_findById d cid \<noteq> None"
    if "applyDeduction d cid dd actor now = Inr r
         \<or> respondToDeduction d cid accepted actor now = Inr r
         \<or> accountApprove d cid actor now = Inr r
         \<or> accountReject d cid actor why now = Inr r
         \<or> adminApprove d cid actor now = Inr r" for r
    using that
    by (auto simp: applyDeduction_def respondToDeduction_def accountApprove_def
        accountReject_def adminApprove_def split: option.splits)
  from stored_only show ?thesis
    by (simp only: applyDeduction_set_isActive respondToDeduction_set_isActive
        accountApprove_set_isActive accountReject_set_isActive adminApprove_set_isActive)
      blast
qed

theorem active_flag_not_examined_witness:
  "set_isActive False ''c1'' db_pending = db_inactive
   \<and> Claim_findById db_inactive ''c1'' \<noteq> None
   \<and> (\<exists>c' d'. applyDeduction db_pending ''c1'' dd_test ''acc'' 5 = Inr (c', d')
        \<and> applyDeduction db_inactive ''c1'' dd_test ''acc'' 5
            = Inr (c'\<lparr>isActive := False\<rparr>, set_isActive False ''c1'' d')
        \<and> status c' = Deducted)"
proof -
  have same: "set_isActive False ''c1'' db_pending = db_inactive"
    by (simp add: set_isActive_def db_pending_def db_inactive_def claim_inactive_def
        claim_pending_def)
  have run: "\<exists>c' d'. applyDeduction db_pending ''c1'' dd_test ''acc'' 5 = Inr (c', d')
               \<and> status c' = Deducted"
    by (simp add: applyDeduction_def Claim_findById_def db_pending_def claim_pending_def
        dd_test_def Let_def Claim_save_def validateClaim_def validateHistory_def
        maxlength500_def cleanHistory_def validActions_def h_submitted_def h_corrupt_def)
  then obtain c' d' where
    r: "applyDeduction db_pending ''c1'' dd_test ''acc'' 5 = Inr (c', d')"
    and s: "status c' = Deducted"
    by blast
  note inst = active_flag_not_examined
    [where d = db_pending and cid = "''c1''" and dd = dd_test and actor = "''acc''"
       and now = 5 and b = False]
  from inst r have i: "applyDeduction db_inactive ''c1'' dd_test ''acc'' 5
                        = Inr (c'\<lparr>isActive := False\<rparr>, set_isActive False ''c1'' d')"
    by (simp add: same result_set_isActive_def)
  note inst' = active_flag_not_examined
    [where d = db_inactive and cid = "''c1''" and dd = dd_test and actor = "''acc''"
       and now = 5]
  from inst' i have "Claim_findById db_inactive ''c1'' \<noteq> None"
    by blast
  with same r i s show ?thesis by blast
qed

text \<open>
  An inactive claim is not refused: a deduction is applied to it, and it is approved.
\<close>

theorem inactive_claim_counterexample:
  "\<not> isActive claim_inactive
   \<and> Claim_findById db_inactive ''c1'' = Some claim_inactive
   \<and> (case applyDeduction db_inactive ''c1'' dd_test ''acc'' 5 of
        Inl e \<Rightarrow> False
      | Inr (c', d') \<Rightarrow> status c' = Deducted \<and> deductionAmount c' = 1 / 20)
   \<and> (case accountApprove db_inactive ''c1'' ''acc'' 5 of
        Inl e \<Rightarrow> False
      | Inr (c', d') \<Rightarrow> status c' = Account_approved)"
  by (simp add: applyDeduction_def accountApprove_def Claim_findById_def db_inactive_def
      claim_inactive_def claim_pending_def dd_test_def Let_def Claim_save_def
      validateClaim_def validateHistory_def maxlength500_def cleanHistory_def
      validActions_def h_submitted_def h_corrupt_def)

section \<open>The lock\<close>




section \<open>The history vocabulary\<close>

text \<open>
  C9. After \<open>createClaim\<close>, \<open>applyDeduction\<close>, \<open>respondToDeduction\<close>, \<open>accountApprove\<close>,
  \<open>accountReject\<close> or \<open>adminApprove\<close> returns a claim, every entry of that claim's history
  has an action of the vocabulary \<open>validActions\<close>. For the five transitions the history
  before the appended entry is the stored history with the entries outside the vocabulary
  removed.
\<close>

theorem history_vocabulary_invariant:
  "(\<forall>c' d'. createClaim toStr d cd newId now = Inr (c', d') \<longrightarrow>
       (\<forall>e \<in> set (history c'). hist_action e \<in> set validActions))
   \<and> (\<forall>c. Claim_findById d cid = Some c \<longrightarrow>
        (\<forall>c' d'. applyDeduction d cid dd actor now = Inr (c', d')
              \<or> respondToDeduction d cid accepted actor now = Inr (c', d')
              \<or> accountApprove d cid actor now = Inr (c', d')
              \<or> accountReject d cid actor why now = Inr (c', d')
              \<or> adminApprove d cid actor now = Inr (c', d') \<longrightarrow>
           (\<forall>e \<in> set (history c'). hist_action e \<in> set validActions)
           \<and> butlast (history c')
               = filter (\<lambda>e. hist_action e \<in> set validActions) (history c)))"
proof -
  have new: "hist_action e \<in> set validActions"
    if "createClaim toStr d cd newId now = Inr (c', d')" and "e \<in> set (history c')" for c' d' e
    using that
    by (auto simp: createClaim_def Let_def validActions_def
        split: option.splits if_splits sum.splits)
  have step: "(\<forall>e \<in> set (history c'). hist_action e \<in> set validActions)
           \<and> butlast (history c')
               = filter (\<lambda>e. hist_action e \<in> set validActions) (history c)"
    if "Claim_findById d cid = Some c"
      and "applyDeduction d cid dd actor now = Inr (c', d')
              \<or> respondToDeduction d cid accepted actor now = Inr (c', d')
              \<or> accountApprove d cid actor now = Inr (c', d')
              \<or> accountReject d cid actor why now = Inr (c', d')
              \<or> adminApprove d cid actor now = Inr (c', d')" for c c' d'
    using that validActions_written
    by (auto simp: applyDeduction_def respondToDeduction_def accountApprove_def
        accountReject_def adminApprove_def Let_def cleanHistory_filter Claim_save_def
        split: if_splits)
  from new step show ?thesis by blast
qed

theorem history_vocabulary_invariant_witness:
  "h_corrupt \<in> set (history claim_pending)
   \<and> hist_action h_corrupt \<notin> set validActions
   \<and> (\<exists>c' d'. applyDeduction db_pending ''c1'' dd_test ''acc'' 5 = Inr (c', d')
        \<and> list_all (\<lambda>e. hist_action e \<in> set validActions) (history c')
        \<and> butlast (history c') = [h_submitted])"
proof -
  have found: "Claim_findById db_pending ''c1'' = Some claim_pending"
    by (simp add: Claim_findById_def db_pending_def claim_pending_def)
  have run: "\<exists>c' d'. applyDeduction db_pending ''c1'' dd_test ''acc'' 5 = Inr (c', d')"
    by (simp add: applyDeduction_def found claim_pending_def dd_test_def Let_def
        Claim_save_def validateClaim_def validateHistory_def maxlength500_def
        cleanHistory_def validActions_def h_submitted_def h_corrupt_def)
  have purged: "filter (\<lambda>e. hist_action e \<in> set validActions) (history claim_pending)
                  = [h_submitted]"
    by (simp add: claim_pending_def validActions_def h_submitted_def h_corrupt_def)
  have corrupt: "h_corrupt \<in> set (history claim_pending)"
    "hist_action h_corrupt \<notin> set validActions"
    by (simp_all add: claim_pending_def validActions_def h_corrupt_def)
  from run obtain c' d' where
    r: "applyDeduction db_pending ''c1'' dd_test ''acc'' 5 = Inr (c', d')"
    by blast
  have "(\<forall>e \<in> set (history c'). hist_action e \<in> set validActions)
        \<and> butlast (history c') = [h_submitted]"
    using history_vocabulary_invariant
      [where d = db_pending and cid = "''c1''" and dd = dd_test and actor = "''acc''"
         and now = 5] found r purged
    by simp
  then have "list_all (\<lambda>e. hist_action e \<in> set validActions) (history c')
        \<and> butlast (history c') = [h_submitted]"
    by (simp add: list_all_iff)
  with r corrupt show ?thesis by blast
qed

section \<open>Creating a claim\<close>

lemma createClaim_checked:
  assumes "cd_userId cd = Some uid" and "cd_postIds cd = Some ids"
    and "ids \<noteq> []" and "distinct ids"
  shows "createClaim toStr d cd newId now =
     (let existingClaimsWithSamePosts = Claim_find_postIds_in d ids in
      if existingClaimsWithSamePosts \<noteq> []
      then Inl (DuplicateClaim (conflictDetails toStr d ids existingClaimsWithSamePosts))
      else
        (let invalidPosts = filter (\<lambda>p. post_userId p \<noteq> uid) (Post_find_in d ids) in
         if invalidPosts \<noteq> [] then Inl (ForbiddenPost (map post_id invalidPosts))
         else
           (case calculateEarnings d ids of
              Inl e \<Rightarrow> Inl e
            | Inr earnings \<Rightarrow>
                (let c = \<lparr>claim_id = newId, userId = uid, postIds = ids,
                           proofFileUrls = cd_proofFileUrls cd,
                           calculatedEarnings = earnings, status = Pending,
                           lockedBy = None, lockTimestamp = None,
                           deductionAmount = 0, deductionReason = None,
                           reviewedBy = None, finalApprovedBy = None,
                           history = [\<lparr>hist_action = ''submitted'',
                                       hist_by = cd_createdBy cd,
                                       hist_timestamp = now,
                                       hist_note = None\<rparr>],
                           createdBy = cd_createdBy cd,
                           updatedBy = cd_updatedBy cd, isActive = True\<rparr>
                 in Inr (c, Claim_insert d c)))))"
  using assms by (simp add: createClaim_def distinct_remdups_id)




text \<open>
  C7, as the code has it. For a call that passes the input checks and meets no stored
  claim on any of its post ids, if a stored post among the requested ones has another
  owner than the submitting user, \<open>createClaim\<close> fails with \<open>ForbiddenPost\<close>; the ids it
  names are those of the stored, requested posts with another owner. The database is
  left as it was: no claim is stored.
\<close>

theorem ownership_check_on_creation:
  assumes "cd_userId cd = Some uid" and "cd_postIds cd = Some ids"
    and "ids \<noteq> []" and "distinct ids"
    and "Claim_find_postIds_in d ids = []"
    and "p \<in> set (posts d)" and "post_id p \<in> set ids" and "post_userId p \<noteq> uid"
  shows "\<exists>bad. createClaim toStr d cd newId now = Inl (ForbiddenPost bad)
           \<and> post_id p \<in> set bad
           \<and> set bad = post_id `
                 {q \<in> set (posts d). post_id q \<in> set ids \<and> post_userId q \<noteq> uid}
           \<and> db_after d (createClaim toStr d cd newId now) = d"
proof -
  let ?invalid = "filter (\<lambda>p. post_userId p \<noteq> uid) (Post_find_in d ids)"
  have mem: "p \<in> set ?invalid"
    using assms(6,7,8) by (simp add: Post_find_in_def)
  from length_pos_if_in_set [OF mem] have ne: "?invalid \<noteq> []"
    by simp
  have result: "createClaim toStr d cd newId now = Inl (ForbiddenPost (map post_id ?invalid))"
    using createClaim_checked [OF assms(1,2,3,4), of toStr d newId now] assms(5) ne
    by (simp add: Let_def)
  have ids: "set (map post_id ?invalid)
               = post_id ` {q \<in> set (posts d). post_id q \<in> set ids \<and> post_userId q \<noteq> uid}"
    by (auto simp: Post_find_in_def)
  have named: "post_id p \<in> set (map post_id ?invalid)"
    using mem by (simp only: set_map) (rule imageI)
  from result ids named show ?thesis
    by (simp add: db_after_def)
qed

theorem ownership_check_on_creation_witness:
  "\<exists>bad. createClaim inspect_toString db_posts (cd_example ''u2'' [''p1'']) ''c2'' 7
             = Inl (ForbiddenPost bad)
      \<and> ''p1'' \<in> set bad
      \<and> db_after db_posts
           (createClaim inspect_toString db_posts (cd_example ''u2'' [''p1'']) ''c2'' 7)
          = db_posts"
proof -
  have facts: "cd_userId (cd_example ''u2'' [''p1'']) = Some ''u2''"
    "cd_postIds (cd_example ''u2'' [''p1'']) = Some [''p1'']"
    "[''p1''] \<noteq> []" "distinct [''p1'']"
    "Claim_find_postIds_in db_posts [''p1''] = []"
    "post_p1 \<in> set (posts db_posts)" "post_id post_p1 \<in> set [''p1'']"
    "post_userId post_p1 \<noteq> ''u2''"
    by (simp_all add: cd_example_def db_posts_def Claim_find_postIds_in_def post_p1_def)
  have id: "post_id post_p1 = ''p1''"
    by (simp add: post_p1_def)
  from ownership_check_on_creation [OF facts, of inspect_toString "''c2''" 7] show ?thesis
    unfolding id by blast
qed

text \<open>
  A post of another owner that a stored claim already holds is answered with
  \<open>DuplicateClaim\<close>, the earlier check, and not with \<open>ForbiddenPost\<close>.
\<close>

theorem ownership_check_counterexample:
  "post_p1 \<in> set (posts db_settled)
   \<and> post_id post_p1 \<in> set [''p1'']
   \<and> post_userId post_p1 \<noteq> ''u2''
   \<and> createClaim inspect_toString db_settled (cd_example ''u2'' [''p1'']) ''c2'' 7
       = Inl (DuplicateClaim [])"
  by (simp add: createClaim_def cd_example_def db_settled_def claim_settled_def
      claim_pending_def post_p1_def Claim_find_postIds_in_def conflictDetails_def
      populate_def Let_def)

section \<open>Post ids that match no stored post\<close>

lemma calculateEarnings_error:
  "calculateEarnings d ids = Inl e \<Longrightarrow> e = ConfigurationMissing"
  by (auto simp: calculateEarnings_def Let_def split: option.splits)

lemma calculateEarnings_result:
  "AdminSettings_findOne d = Some s \<Longrightarrow> \<exists>r. calculateEarnings d ids = Inr r"
  by (cases "calculateEarnings d ids") (auto simp: calculateEarnings_def Let_def)

lemma Post_find_in_stored:
  "Post_find_in d (filter (\<lambda>i. i \<in> post_id ` set (posts d)) ids) = Post_find_in d ids"
  unfolding Post_find_in_def by (rule filter_cong) auto

lemma calculateEarnings_stored:
  "calculateEarnings d (filter (\<lambda>i. i \<in> post_id ` set (posts d)) ids)
     = calculateEarnings d ids"
  by (simp add: calculateEarnings_def Post_find_in_stored)

lemma calculateEarnings_db_posts:
  "calculateEarnings db_posts [''p1''] = Inr (26 / 10)"
proof -
  have s: "AdminSettings_findOne db_posts = Some default_settings"
    by (simp add: AdminSettings_findOne_def db_posts_def default_settings_def)
  have found: "Post_find_in db_posts [''p1''] = [post_p1]"
    by (simp add: Post_find_in_def db_posts_def post_p1_def)
  have "of_int \<lfloor>(26 / 10 :: rat) * 100 + 1 / 2\<rfloor> / 100 = (26 / 10 :: rat)"
    by code_simp
  then show ?thesis
    by (simp add: calculateEarnings_def s found Let_def Math_round_def post_p1_def
        default_settings_def)
qed

text \<open>
  C10, as the code has it. \<open>createClaim\<close> never fails with \<open>NotFound\<close>, and a
  \<open>ForbiddenPost\<close> failure names stored posts only. Nothing requires the requested ids to
  match stored posts: for a call that passes the input checks, meets no stored claim on
  its post ids and whose stored posts all belong to the submitting user, with an active
  settings record, the claim is stored with all the requested ids as its \<open>postIds\<close>, and
  its \<open>calculatedEarnings\<close> are those of the requested ids that match a stored post: an id
  that matches none adds nothing.
\<close>

theorem missing_posts_not_checked:
  "createClaim toStr d cd newId now \<noteq> Inl NotFound
   \<and> (\<forall>bad. createClaim toStr d cd newId now = Inl (ForbiddenPost bad) \<longrightarrow>
         set bad \<subseteq> post_id ` set (posts d))
   \<and> (\<forall>uid ids s.
         cd_userId cd = Some uid \<and> cd_postIds cd = Some ids \<and> ids \<noteq> [] \<and> distinct ids
         \<and> Claim_find_postIds_in d ids = []
         \<and> (\<forall>p \<in> set (Post_find_in d ids). post_userId p = uid)
         \<and> AdminSettings_findOne d = Some s \<longrightarrow>
         (\<exists>c' d'. createClaim toStr d cd newId now = Inr (c', d')
            \<and> postIds c' = ids
            \<and> c' \<in> set (claims d')
            \<and> calculateEarnings d (filter (\<lambda>i. i \<in> post_id ` set (posts d)) ids)
                = Inr (calculatedEarnings c')))"
proof -
  have no_nf: "createClaim toStr d cd newId now \<noteq> Inl NotFound"
    by (auto simp: createClaim_def Let_def
        split: option.splits sum.splits dest: calculateEarnings_error)
  have forbidden: "set bad \<subseteq> post_id ` set (posts d)"
    if "createClaim toStr d cd newId now = Inl (ForbiddenPost bad)" for bad
    using that
    by (auto simp: createClaim_def Let_def Post_find_in_def
        split: option.splits sum.splits if_splits dest: calculateEarnings_error)
  have created: "\<exists>c' d'. createClaim toStr d cd newId now = Inr (c', d')
            \<and> postIds c' = ids
            \<and> c' \<in> set (claims d')
            \<and> calculateEarnings d (filter (\<lambda>i. i \<in> post_id ` set (posts d)) ids)
                = Inr (calculatedEarnings c')"
    if u: "cd_userId cd = Some uid" and p: "cd_postIds cd = Some ids"
      and ne: "ids \<noteq> []" and di: "distinct ids"
      and free: "Claim_find_postIds_in d ids = []"
      and own: "\<forall>p \<in> set (Post_find_in d ids). post_userId p = uid"
      and s: "AdminSettings_findOne d = Some s" for uid ids s
  proof -
    have invalid: "filter (\<lambda>p. post_userId p \<noteq> uid) (Post_find_in d ids) = []"
      using own by (simp add: filter_empty_conv)
    obtain r where r: "calculateEarnings d ids = Inr r"
      using calculateEarnings_result [OF s] by blast
    show ?thesis
      using createClaim_checked [OF u p ne di, of toStr d newId now] free invalid r
      by (simp add: Let_def Claim_insert_def calculateEarnings_stored)
  qed
  from no_nf forbidden created show ?thesis by blast
qed

theorem missing_posts_not_checked_witness:
  "''ghost'' \<notin> post_id ` set (posts db_posts)
   \<and> (\<exists>c' d'. createClaim inspect_toString db_posts (cd_example ''u1'' [''p1'', ''ghost''])
                  ''c2'' 7
                 = Inr (c', d')
        \<and> postIds c' = [''p1'', ''ghost'']
        \<and> c' \<in> set (claims d')
        \<and> calculatedEarnings c' = 26 / 10)"
proof -
  have ghost: "''ghost'' \<notin> post_id ` set (posts db_posts)"
    by (simp add: db_posts_def post_p1_def)
  have facts: "cd_userId (cd_example ''u1'' [''p1'', ''ghost'']) = Some ''u1''"
    "cd_postIds (cd_example ''u1'' [''p1'', ''ghost'']) = Some [''p1'', ''ghost'']"
    "[''p1'', ''ghost''] \<noteq> []" "distinct [''p1'', ''ghost'']"
    "Claim_find_postIds_in db_posts [''p1'', ''ghost''] = []"
    "\<forall>p \<in> set (Post_find_in db_posts [''p1'', ''ghost'']). post_userId p = ''u1''"
    "AdminSettings_findOne db_posts = Some default_settings"
    by (simp_all add: cd_example_def db_posts_def Claim_find_postIds_in_def Post_find_in_def
        post_p1_def AdminSettings_findOne_def default_settings_def)
  have stored: "filter (\<lambda>i. i \<in> post_id ` set (posts db_posts)) [''p1'', ''ghost''] = [''p1'']"
    by (simp add: db_posts_def post_p1_def)
  from missing_posts_not_checked
    [where toStr = inspect_toString and d = db_posts
       and cd = "cd_example ''u1'' [''p1'', ''ghost'']"
       and newId = "''c2''" and now = 7] facts
  obtain c' d' where
    r: "createClaim inspect_toString db_posts (cd_example ''u1'' [''p1'', ''ghost'']) ''c2'' 7
          = Inr (c', d')"
      "postIds c' = [''p1'', ''ghost'']" "c' \<in> set (claims d')"
    and e: "calculateEarnings db_posts
              (filter (\<lambda>i. i \<in> post_id ` set (posts db_posts)) [''p1'', ''ghost''])
            = Inr (calculatedEarnings c')"
    by blast
  from e have "calculatedEarnings c' = 26 / 10"
    unfolding stored calculateEarnings_db_posts by simp
  with r ghost show ?thesis by blast
qed

text \<open>
  With no stored claim on the requested ids and an active settings record, a call that
  names a post of another owner beside an id that matches no post is refused with
  \<open>ForbiddenPost\<close> for the stored post; no claim is stored.
\<close>

theorem missing_posts_counterexample:
  "''ghost'' \<notin> post_id ` set (posts db_posts)
   \<and> Claim_find_postIds_in db_posts [''p1'', ''ghost''] = []
   \<and> AdminSettings_findOne db_posts = Some default_settings
   \<and> createClaim inspect_toString db_posts (cd_example ''u2'' [''p1'', ''ghost'']) ''c2'' 7
       = Inl (ForbiddenPost [''p1''])"
  by (simp add: createClaim_def cd_example_def db_posts_def post_p1_def
      Claim_find_postIds_in_def Post_find_in_def AdminSettings_findOne_def
      default_settings_def Let_def)

section \<open>What the duplicate error names\<close>

lemma conflictDetails_none:
  assumes "\<forall>c \<in> set existing. \<forall>r \<in> set (populate d (postIds c)). toStr r \<notin> set ids"
  shows "conflictDetails toStr d ids existing = []"
  using assms by (simp add: conflictDetails_def Let_def)

text \<open>
  The details of a \<open>DuplicateClaim\<close> error hold the populated entries whose
  \<^verbatim>\<open>toString()\<close> is one of the requested ids. For a call that passes the input checks and
  meets a stored claim on one of its post ids, if \<^verbatim>\<open>toString()\<close> of no populated entry is
  a requested id, as when it prints the document, \<open>createClaim\<close> fails with
  \<open>DuplicateClaim\<close> and the error names no post.
\<close>

theorem duplicate_details_need_toString:
  assumes "cd_userId cd = Some uid" and "cd_postIds cd = Some ids"
    and "ids \<noteq> []" and "distinct ids"
    and "Claim_find_postIds_in d ids \<noteq> []"
    and "\<forall>c \<in> set (claims d). \<forall>r \<in> set (populate d (postIds c)). toStr r \<notin> set ids"
  shows "createClaim toStr d cd newId now = Inl (DuplicateClaim [])"
proof -
  have "\<forall>c \<in> set (Claim_find_postIds_in d ids).
          \<forall>r \<in> set (populate d (postIds c)). toStr r \<notin> set ids"
    using assms(6) by (auto simp: Claim_find_postIds_in_def)
  then have "conflictDetails toStr d ids (Claim_find_postIds_in d ids) = []"
    by (rule conflictDetails_none)
  then show ?thesis
    using createClaim_checked [OF assms(1,2,3,4), of toStr d newId now] assms(5)
    by (simp add: Let_def)
qed

theorem duplicate_details_need_toString_witness:
  "createClaim inspect_toString db_settled (cd_example ''u1'' [''p1'']) ''c2'' 7
     = Inl (DuplicateClaim [])"
proof -
  have facts: "cd_userId (cd_example ''u1'' [''p1'']) = Some ''u1''"
    "cd_postIds (cd_example ''u1'' [''p1'']) = Some [''p1'']"
    "[''p1''] \<noteq> []" "distinct [''p1'']"
    "Claim_find_postIds_in db_settled [''p1''] \<noteq> []"
    "\<forall>c \<in> set (claims db_settled). \<forall>r \<in> set (populate db_settled (postIds c)).
        inspect_toString r \<notin> set [''p1'']"
    by (simp_all add: cd_example_def db_settled_def Claim_find_postIds_in_def
        claim_settled_def claim_pending_def populate_def post_p1_def)
  from duplicate_details_need_toString [OF facts, of "''c2''" 7] show ?thesis .
qed

end
